theory Spec2Isabelle
  imports Complex_Main "HOL-Library.Sublist"
begin

section \<open>JavaScript strings\<close>

text \<open>
  A string is a list of code units. The model covers the code units U+0000 to U+00FF,
  one \<^typ>\<open>char\<close> each, so \<^term>\<open>length\<close> is the \<^verbatim>\<open>.length\<close> of the source.
  \<^verbatim>\<open>toLowerCase\<close> maps A-Z and the upper-case letters of the Latin-1 block
  (U+00C0 to U+00DE, without the multiplication sign U+00D7) to the code unit 32 above.
  White space, for the regular expression class \<^verbatim>\<open>\s\<close> and for \<^verbatim>\<open>trim\<close>, is
  tab, line feed, vertical tab, form feed, carriage return, space and U+00A0.
\<close>

definition charCode :: "char \<Rightarrow> int" where
  "charCode c = of_char c"

definition toLowerChar :: "char \<Rightarrow> char" where
  "toLowerChar c =
     (if (65 \<le> charCode c \<and> charCode c \<le> 90) \<or>
         (192 \<le> charCode c \<and> charCode c \<le> 222 \<and> charCode c \<noteq> 215)
      then char_of (charCode c + 32) else c)"

definition toLowerCase :: "string \<Rightarrow> string" where
  "toLowerCase s = map toLowerChar s"

definition isSpace :: "char \<Rightarrow> bool" where
  "isSpace c = (charCode c \<in> {9, 10, 11, 12, 13, 32, 160})"

definition isLowerAlnum :: "char \<Rightarrow> bool" where
  "isLowerAlnum c =
     ((97 \<le> charCode c \<and> charCode c \<le> 122) \<or> (48 \<le> charCode c \<and> charCode c \<le> 57))"

definition hyphen :: char where
  "hyphen = CHR ''-''"

text \<open>
  \<^verbatim>\<open>s.replace(/X+/g, '-')\<close> for a character class \<open>X\<close>: every maximal run of
  characters of the class becomes one hyphen.
\<close>

function replaceRuns :: "(char \<Rightarrow> bool) \<Rightarrow> string \<Rightarrow> string" where
  "replaceRuns P [] = []"
| "replaceRuns P (c # cs) =
     (if P c then hyphen # replaceRuns P (dropWhile P cs) else c # replaceRuns P cs)"
  by pat_completeness auto
termination
  by (relation "measure (\<lambda>(P, s). length s)") (auto simp: length_dropWhile_le less_Suc_eq_le)

definition trim :: "string \<Rightarrow> string" where
  "trim s = rev (dropWhile isSpace (rev (dropWhile isSpace s)))"

subsection \<open>Slug derivation\<close>

text \<open>
  \<^verbatim>\<open>title.toLowerCase().replace(/[^a-z0-9\s-]/g, '').replace(/\s+/g, '-').replace(/-+/g, '-')\<close>
  is \<open>slugBody\<close>; \<^verbatim>\<open>.trim().substring(0, 60)\<close> completes \<open>generateSlug\<close>.
\<close>

definition slugBody :: "string \<Rightarrow> string" where
  "slugBody title =
     replaceRuns (\<lambda>c. c = hyphen)
       (replaceRuns isSpace
         (filter (\<lambda>c. isLowerAlnum c \<or> isSpace c \<or> c = hyphen) (toLowerCase title)))"

definition generateSlug :: "string \<Rightarrow> string" where
  "generateSlug title = take 60 (trim (slugBody title))"

text \<open>The shape of a slug: its alphabet, and no hyphen next to a hyphen.\<close>

definition isSlugChar :: "char \<Rightarrow> bool" where
  "isSlugChar c = (isLowerAlnum c \<or> c = hyphen)"

fun noDoubleHyphen :: "string \<Rightarrow> bool" where
  "noDoubleHyphen [] = True"
| "noDoubleHyphen [c] = True"
| "noDoubleHyphen (a # b # cs) = (\<not> (a = hyphen \<and> b = hyphen) \<and> noDoubleHyphen (b # cs))"

section \<open>Topic selection\<close>

record topicRecord =
  topic :: string
  category :: string
  featured :: bool

definition TOPIC_POOL :: "topicRecord list" where
  "TOPIC_POOL =
    [\<lparr>topic = ''How to Write a Compelling Thesis Introduction'',
      category = ''Writing Tips'', featured = True\<rparr>,
     \<lparr>topic = ''Mastering Academic Writing Style: Tips for Graduate Students'',
      category = ''Writing Tips'', featured = False\<rparr>,
     \<lparr>topic = ''Common Thesis Writing Mistakes and How to Avoid Them'',
      category = ''Writing Tips'', featured = True\<rparr>,
     \<lparr>topic = ''How to Write a Strong Thesis Conclusion That Impresses'',
      category = ''Writing Tips'', featured = False\<rparr>,
     \<lparr>topic = ''Transition Words and Phrases for Academic Writing'',
      category = ''Writing Tips'', featured = False\<rparr>,
     \<lparr>topic = ''How to Improve Your Academic Vocabulary'',
      category = ''Writing Tips'', featured = False\<rparr>,
     \<lparr>topic = ''Qualitative vs Quantitative Research: Choosing the Right Method'',
      category = ''Research'', featured = True\<rparr>,
     \<lparr>topic = ''How to Conduct a Systematic Literature Review'',
      category = ''Research'', featured = True\<rparr>,
     \<lparr>topic = ''Primary vs Secondary Sources: A Complete Guide'',
      category = ''Research'', featured = False\<rparr>,
     \<lparr>topic = ''Research Ethics: Guidelines Every Graduate Student Must Know'',
      category = ''Research'', featured = False\<rparr>,
     \<lparr>topic = ''How to Find Credible Sources for Your Thesis'',
      category = ''Research'', featured = False\<rparr>,
     \<lparr>topic = ''Data Collection Methods for Academic Research'',
      category = ''Research'', featured = False\<rparr>,
     \<lparr>topic = ''AI Tools That Will Transform Your Thesis Writing in 2026'',
      category = ''Technology'', featured = True\<rparr>,
     \<lparr>topic = ''Best Reference Management Software for Researchers'',
      category = ''Technology'', featured = False\<rparr>,
     \<lparr>topic = ''How AI is Revolutionizing Academic Writing'',
      category = ''Technology'', featured = True\<rparr>,
     \<lparr>topic = ''Plagiarism Detection Tools: What Every Student Should Know'',
      category = ''Technology'', featured = False\<rparr>,
     \<lparr>topic = ''Using AI for Literature Review: A Complete Guide'',
      category = ''Technology'', featured = False\<rparr>,
     \<lparr>topic = ''Digital Tools for Organizing Your Research'',
      category = ''Technology'', featured = False\<rparr>,
     \<lparr>topic = ''Time Management Strategies for Thesis Writers'',
      category = ''Productivity'', featured = True\<rparr>,
     \<lparr>topic = ''How to Overcome Writer'' @ [CHR 0x27] @ ''s Block When Writing Your Thesis'',
      category = ''Productivity'', featured = False\<rparr>,
     \<lparr>topic = ''Creating a Realistic Thesis Writing Schedule'',
      category = ''Productivity'', featured = False\<rparr>,
     \<lparr>topic = ''Work-Life Balance During Graduate School'',
      category = ''Productivity'', featured = False\<rparr>,
     \<lparr>topic = ''Productivity Apps Every Graduate Student Needs'',
      category = ''Productivity'', featured = False\<rparr>,
     \<lparr>topic = ''How to Stay Motivated During Long Research Projects'',
      category = ''Productivity'', featured = True\<rparr>,
     \<lparr>topic = ''Complete Guide to Thesis Formatting and Structure'',
      category = ''Guides'', featured = True\<rparr>,
     \<lparr>topic = ''APA vs MLA vs Chicago: Citation Styles Explained'',
      category = ''Guides'', featured = False\<rparr>,
     \<lparr>topic = ''How to Prepare for Your Thesis Defense'',
      category = ''Guides'', featured = True\<rparr>,
     \<lparr>topic = ''Step-by-Step Guide to Writing Your Methodology Chapter'',
      category = ''Guides'', featured = False\<rparr>,
     \<lparr>topic = ''Understanding the Thesis Approval Process'',
      category = ''Guides'', featured = False\<rparr>,
     \<lparr>topic = ''How to Choose the Perfect Thesis Topic'',
      category = ''Guides'', featured = True\<rparr>]"

text \<open>
  \<^verbatim>\<open>s.split(' ')\<close>: the pieces between single spaces, empty pieces included; the
  result is never the empty list.
\<close>

fun splitOn :: "char \<Rightarrow> string \<Rightarrow> string list" where
  "splitOn sep [] = [[]]"
| "splitOn sep (c # cs) =
     (if c = sep then [] # splitOn sep cs
      else (case splitOn sep cs of
              w # ws \<Rightarrow> (c # w) # ws
            | [] \<Rightarrow> [[c]]))"

definition significantWords :: "string \<Rightarrow> string list" where
  "significantWords s = filter (\<lambda>w. length w > 4) (splitOn CHR '' '' s)"

text \<open>
  The body of the \<^verbatim>\<open>some\<close> callback of \<open>selectUniqueTopic\<close>. The source compares
  \<^verbatim>\<open>matches.length > topicWords.length * 0.4\<close> in doubles; the model compares in the
  reals, which gives the same answer for every word count a title can have: for a count
  that is a multiple of 5 the double product is the exact integer, and for any other count
  the exact product is at least 0.2 away from every integer.
\<close>

definition overlaps :: "string \<Rightarrow> string \<Rightarrow> bool" where
  "overlaps topicLower used =
     (let topicWords = significantWords topicLower;
          usedWords = significantWords used;
          matches = filter (\<lambda>w. w \<in> set usedWords) topicWords
      in real (length matches) > real (length topicWords) * (4 / 10))"

definition availableTopics :: "string list \<Rightarrow> topicRecord list" where
  "availableTopics usedTopics =
     filter (\<lambda>t. \<not> list_ex (\<lambda>used. overlaps (toLowerCase (topic t)) used) usedTopics)
       TOPIC_POOL"

definition topicsToChoose :: "string list \<Rightarrow> topicRecord list" where
  "topicsToChoose usedTopics =
     (if length (availableTopics usedTopics) > 5 then availableTopics usedTopics
      else TOPIC_POOL)"

text \<open>
  \<^verbatim>\<open>xs[Math.floor(Math.random() * xs.length)]\<close>, with the value \<open>r\<close> that
  \<^verbatim>\<open>Math.random()\<close> returned (a number with \<open>0 \<le> r < 1\<close>) as a parameter. An index
  outside the list reads \<^verbatim>\<open>undefined\<close>, which is \<open>None\<close> here.
\<close>

definition randomIndex :: "real \<Rightarrow> nat \<Rightarrow> int" where
  "randomIndex r n = \<lfloor>r * real n\<rfloor>"

definition pick :: "real \<Rightarrow> 'a list \<Rightarrow> 'a option" where
  "pick r xs =
     (if 0 \<le> randomIndex r (length xs) \<and> randomIndex r (length xs) < int (length xs)
      then Some (xs ! nat (randomIndex r (length xs))) else None)"

definition selectUniqueTopic :: "real \<Rightarrow> string list \<Rightarrow> topicRecord option" where
  "selectUniqueTopic r usedTopics = pick r (topicsToChoose usedTopics)"

text \<open>\<^verbatim>\<open>s.includes(sub)\<close>: \<open>sub\<close> occurs in \<open>s\<close> as a contiguous piece.\<close>

fun startsWith :: "string \<Rightarrow> string \<Rightarrow> bool" where
  "startsWith s [] = True"
| "startsWith [] (c # cs) = False"
| "startsWith (a # rest) (c # cs) = (if a = c then startsWith rest cs else False)"

fun includesStr :: "string \<Rightarrow> string \<Rightarrow> bool" where
  "includesStr [] sub = (sub = [])"
| "includesStr (a # rest) sub = (if startsWith (a # rest) sub then True else includesStr rest sub)"

text \<open>
  The topic selection at the start of \<open>generateBlogPost\<close>: a caller-supplied topic that
  is not blank is matched against the pool, and the first pool record that matches in
  either direction is used; with no match an ad-hoc record is made. Without a supplied
  topic \<open>selectUniqueTopic\<close> chooses.
\<close>

definition topicMatches :: "string \<Rightarrow> topicRecord \<Rightarrow> bool" where
  "topicMatches providedTopic t =
     (if includesStr (toLowerCase (topic t)) (toLowerCase providedTopic) then True
      else includesStr (toLowerCase providedTopic) (toLowerCase (topic t)))"

definition selectTopic :: "real \<Rightarrow> string \<Rightarrow> string list \<Rightarrow> topicRecord option" where
  "selectTopic r providedTopic usedTopics =
     (if providedTopic \<noteq> [] \<and> trim providedTopic \<noteq> []
      then Some (case find (topicMatches providedTopic) TOPIC_POOL of
                   Some t \<Rightarrow> t
                 | None \<Rightarrow> \<lparr>topic = providedTopic, category = ''Guides'', featured = False\<rparr>)
      else selectUniqueTopic r usedTopics)"

section \<open>Image selection\<close>

text \<open>
  The curated images, an object literal of the declared type
  \<^verbatim>\<open>Record<string, string[]>\<close>, as an association list in the order of the source;
  these five are the own keys of the object.
\<close>

definition categoryImages :: "(string \<times> string list) list" where
  "categoryImages =
    [(''Writing Tips'',
      [''https://images.unsplash.com/photo-1455390582262-044cdead277a?w=800&q=80'',
       ''https://images.unsplash.com/photo-1486312338219-ce68d2c6f44d?w=800&q=80'',
       ''https://images.unsplash.com/photo-1499750310107-5fef28a66643?w=800&q=80'',
       ''https://images.unsplash.com/photo-1434030216411-0b793f4b4173?w=800&q=80'',
       ''https://images.unsplash.com/photo-1456324504439-367cee3b3c32?w=800&q=80'',
       ''https://images.unsplash.com/photo-1488190211105-8b0e65b80b4e?w=800&q=80'']),
     (''Research'',
      [''https://images.unsplash.com/photo-1456324463128-7ff6903988d8?w=800&q=80'',
       ''https://images.unsplash.com/photo-1481627834876-b7833e8f5570?w=800&q=80'',
       ''https://images.unsplash.com/photo-1524995997946-a1c2e315a42f?w=800&q=80'',
       ''https://images.unsplash.com/photo-1497633762265-9d179a990aa6?w=800&q=80'',
       ''https://images.unsplash.com/photo-1513475382585-d06e58bcb0e0?w=800&q=80'',
       ''https://images.unsplash.com/photo-1507003211169-0a1dd7228f2d?w=800&q=80'']),
     (''Technology'',
      [''https://images.unsplash.com/photo-1677442136019-21780ecad995?w=800&q=80'',
       ''https://images.unsplash.com/photo-1620712943543-bcc4688e7485?w=800&q=80'',
       ''https://images.unsplash.com/photo-1555255707-c07966088b7b?w=800&q=80'',
       ''https://images.unsplash.com/photo-1518770660439-4636190af475?w=800&q=80'',
       ''https://images.unsplash.com/photo-1485827404703-89b55fcc595e?w=800&q=80'',
       ''https://images.unsplash.com/photo-1519389950473-47ba0277781c?w=800&q=80'']),
     (''Productivity'',
      [''https://images.unsplash.com/photo-1484480974693-6ca0a78fb36b?w=800&q=80'',
       ''https://images.unsplash.com/photo-1506784983877-45594efa4cbe?w=800&q=80'',
       ''https://images.unsplash.com/photo-1553877522-43269d4ea984?w=800&q=80'',
       ''https://images.unsplash.com/photo-1551434678-e076c223a692?w=800&q=80'',
       ''https://images.unsplash.com/photo-1454165804606-c3d57bc86b40?w=800&q=80'',
       ''https://images.unsplash.com/photo-1522202176988-66273c2fd55f?w=800&q=80'']),
     (''Guides'',
      [''https://images.unsplash.com/photo-1523050854058-8df90110c9f1?w=800&q=80'',
       ''https://images.unsplash.com/photo-1541339907198-e08756dedf3f?w=800&q=80'',
       ''https://images.unsplash.com/photo-1427504494785-3a9ca7044f45?w=800&q=80'',
       ''https://images.unsplash.com/photo-1562774053-701939374585?w=800&q=80'',
       ''https://images.unsplash.com/photo-1523580494863-6f3031224c94?w=800&q=80'',
       ''https://images.unsplash.com/photo-1503676260728-1c00da094a0b?w=800&q=80''])]"

text \<open>The list of the default category, \<^verbatim>\<open>categoryImages['Guides']\<close>.\<close>

definition guidesImages :: "string list" where
  "guidesImages =
     [''https://images.unsplash.com/photo-1523050854058-8df90110c9f1?w=800&q=80'',
      ''https://images.unsplash.com/photo-1541339907198-e08756dedf3f?w=800&q=80'',
      ''https://images.unsplash.com/photo-1427504494785-3a9ca7044f45?w=800&q=80'',
      ''https://images.unsplash.com/photo-1562774053-701939374585?w=800&q=80'',
      ''https://images.unsplash.com/photo-1523580494863-6f3031224c94?w=800&q=80'',
      ''https://images.unsplash.com/photo-1503676260728-1c00da094a0b?w=800&q=80'']"

text \<open>
  \<^verbatim>\<open>categoryImages[category]\<close> reads a property of a plain object: an own key gives
  its list; a name that every object inherits from \<^verbatim>\<open>Object.prototype\<close> gives the
  inherited function or object, which is truthy and is not an array; any other name gives
  \<^verbatim>\<open>undefined\<close>. The inherited names are those of ECMAScript with its Annex B.
\<close>

definition objectPrototypeNames :: "string list" where
  "objectPrototypeNames =
     [''constructor'', ''__defineGetter__'', ''__defineSetter__'', ''hasOwnProperty'',
      ''__lookupGetter__'', ''__lookupSetter__'', ''isPrototypeOf'', ''propertyIsEnumerable'',
      ''toString'', ''valueOf'', ''__proto__'', ''toLocaleString'']"

datatype propertyValue = Images "string list" | InheritedValue | Undefined

definition lookupCategory :: "string \<Rightarrow> propertyValue" where
  "lookupCategory cat =
     (case map_of categoryImages cat of
        Some images \<Rightarrow> Images images
      | None \<Rightarrow> if cat \<in> set objectPrototypeNames then InheritedValue else Undefined)"

text \<open>
  \<^verbatim>\<open>const images = categoryImages[category] || categoryImages['Guides']\<close>, as the list
  that \<^verbatim>\<open>images.filter\<close> then works on. Only \<^verbatim>\<open>undefined\<close> is falsy here, so an
  inherited value is kept, and \<^verbatim>\<open>images.filter\<close> raises a TypeError on it: that is
  \<open>None\<close>.
\<close>

definition imagesFor :: "string \<Rightarrow> string list option" where
  "imagesFor cat =
     (case lookupCategory cat of
        Images images \<Rightarrow> Some images
      | InheritedValue \<Rightarrow> None
      | Undefined \<Rightarrow> map_of categoryImages ''Guides'')"

text \<open>
  \<open>None\<close> stands for a call that yields no image: \<^verbatim>\<open>undefined\<close> from an index
  outside the list, or the TypeError of \<^verbatim>\<open>images.filter\<close> on a value that is not a
  list.
\<close>

definition selectUniqueImage :: "real \<Rightarrow> string \<Rightarrow> string list \<Rightarrow> string option" where
  "selectUniqueImage r cat usedImages =
     (case imagesFor cat of
        None \<Rightarrow> None
      | Some images \<Rightarrow>
          (let availableImages = filter (\<lambda>img. img \<notin> set usedImages) images;
               imagesToChooseFrom =
                 (if length availableImages > 0 then availableImages else images)
           in pick r imagesToChooseFrom))"

section \<open>The index of generated posts\<close>

text \<open>
  A record of the index file, with the fields of the object literal \<open>newPost\<close>. The
  fields \<^verbatim>\<open>category\<close>, \<^verbatim>\<open>featured\<close>, \<^verbatim>\<open>keywords\<close> and \<^verbatim>\<open>image\<close> of the
  source are \<open>postCategory\<close>, \<open>postFeatured\<close>, \<open>postKeywords\<close> and \<open>imageUrl\<close> here.
\<close>

record post =
  slug :: string
  title :: string
  excerpt :: string
  description :: string
  date :: string
  publishedAt :: string
  author :: string
  postCategory :: string
  tags :: "string list"
  postKeywords :: "string list"
  imageUrl :: string
  readTime :: string
  postFeatured :: bool
  filename :: string

text \<open>
  \<^verbatim>\<open>posts = posts.filter((p) => p.slug !== slug); posts.unshift(newPost)\<close>, where
  \<^verbatim>\<open>slug\<close> is the slug of \<open>newPost\<close>.
\<close>

definition upsertPost :: "post \<Rightarrow> post list \<Rightarrow> post list" where
  "upsertPost newPost posts = newPost # filter (\<lambda>p. slug p \<noteq> slug newPost) posts"

section \<open>Files and JSON texts\<close>

text \<open>
  The file system maps a path to a file with its text or to a directory. Reading a
  directory and writing over a directory raise; other failures of the operating system
  (permissions, a full disk, a parent that is not a directory) are outside the model.
\<close>

datatype node = File string | Dir

type_synonym filesystem = "string \<Rightarrow> node option"

datatype jsError =
    IOError
  | SyntaxError
  | TypeError
  | FetchFailed
  | ApiError nat string
  | NoResponse

definition existsSync :: "filesystem \<Rightarrow> string \<Rightarrow> bool" where
  "existsSync fs p = (fs p \<noteq> None)"

definition readFileSync :: "filesystem \<Rightarrow> string \<Rightarrow> jsError + string" where
  "readFileSync fs p = (case fs p of Some (File s) \<Rightarrow> Inr s | _ \<Rightarrow> Inl IOError)"

definition writeFileSync :: "filesystem \<Rightarrow> string \<Rightarrow> string \<Rightarrow> jsError + filesystem" where
  "writeFileSync fs p s = (case fs p of Some Dir \<Rightarrow> Inl IOError | _ \<Rightarrow> Inr (fs(p \<mapsto> File s)))"

definition mkdirSync :: "filesystem \<Rightarrow> string \<Rightarrow> filesystem" where
  "mkdirSync fs p = fs(p \<mapsto> Dir)"

text \<open>\<^verbatim>\<open>path.join\<close> of segments that need no normalisation.\<close>

definition pathJoin :: "string \<Rightarrow> string \<Rightarrow> string" where
  "pathJoin dir name = dir @ ''/'' @ name"

text \<open>
  \<^verbatim>\<open>JSON.parse\<close> and \<^verbatim>\<open>JSON.stringify\<close> belong to the platform and are parameters
  of the model. A text for which \<^verbatim>\<open>JSON.parse\<close> raises is \<open>None\<close>; a text that it
  accepts is taken to hold a value of the shape that the type annotations of the source
  declare, and is decoded into that shape:
  \<^item> \<open>parseIndex\<close> decodes the index file, an array of post records;
  \<^item> \<open>parseCompletion\<close> decodes the body of the response of the remote API and reads
    \<^verbatim>\<open>data.choices?.[0]?.message?.content\<close>, \<open>Some None\<close> when that is undefined;
  \<^item> \<open>parseBlogData\<close> decodes the generated payload;
  \<^item> \<open>stringifyIndex\<close> and \<open>stringifyStrings\<close> encode the index and a list of strings.
\<close>

record blogData =
  bdTitle :: string
  bdSlug :: "string option"
  bdDescription :: string
  bdExcerpt :: string
  bdAuthor :: string
  bdTags :: "string list"
  bdKeywords :: "string list option"
  bdReadTime :: string
  bdContent :: string

record codec =
  parseIndex :: "string \<Rightarrow> post list option"
  parseCompletion :: "string \<Rightarrow> string option option"
  parseBlogData :: "string \<Rightarrow> blogData option"
  stringifyIndex :: "post list \<Rightarrow> string"
  stringifyStrings :: "string list \<Rightarrow> string"

section \<open>History reader\<close>

text \<open>
  Both readers test \<^verbatim>\<open>fs.existsSync(indexPath)\<close> and then read and decode the file in
  a \<^verbatim>\<open>try\<close> block whose \<^verbatim>\<open>catch\<close> returns the empty list. The body of the block
  is \<open>readIndex\<close>; the result of a reader is \<open>Inr\<close> of the list it returns, and would be
  \<open>Inl\<close> for an exception that leaves the function.
\<close>

definition historyPath :: "string \<Rightarrow> string" where
  "historyPath cwd = pathJoin (pathJoin cwd ''posts'') ''index.json''"

definition readIndex :: "codec \<Rightarrow> filesystem \<Rightarrow> string \<Rightarrow> jsError + post list" where
  "readIndex c fs p =
     (case readFileSync fs p of
        Inl e \<Rightarrow> Inl e
      | Inr s \<Rightarrow> (case parseIndex c s of None \<Rightarrow> Inl SyntaxError | Some posts \<Rightarrow> Inr posts))"

definition getRecentlyUsedImages :: "codec \<Rightarrow> filesystem \<Rightarrow> string \<Rightarrow> jsError + string list" where
  "getRecentlyUsedImages c fs cwd =
     (if \<not> existsSync fs (historyPath cwd) then Inr []
      else (case readIndex c fs (historyPath cwd) of
              Inr posts \<Rightarrow> Inr (map imageUrl (take 15 posts))
            | Inl e \<Rightarrow> Inr []))"

definition getRecentTopics :: "codec \<Rightarrow> filesystem \<Rightarrow> string \<Rightarrow> jsError + string list" where
  "getRecentTopics c fs cwd =
     (if \<not> existsSync fs (historyPath cwd) then Inr []
      else (case readIndex c fs (historyPath cwd) of
              Inr posts \<Rightarrow> Inr (map (\<lambda>p. toLowerCase (title p)) posts)
            | Inl e \<Rightarrow> Inr []))"

section \<open>Generating a post\<close>

definition seoKeywords_primary :: "string list" where
  "seoKeywords_primary =
    [''thesis generator'',
     ''AI thesis writing'',
     ''thesis writing help'',
     ''dissertation writing'',
     ''academic writing AI'',
     ''thesis writing tool'',
     ''research paper generator'',
     ''AI academic writing'',
     ''essay ai'',
     ''write my dissertation ai'',
     ''free thesis writer'']"

definition seoKeywords_secondary :: "string list" where
  "seoKeywords_secondary =
    [''how to write a thesis'',
     ''thesis writing tips'',
     ''dissertation help'',
     ''research methodology'',
     ''literature review generator'',
     ''thesis structure'',
     ''academic writing guide'',
     ''thesis introduction'',
     ''thesis conclusion'',
     ''thesis defense'',
     ''academic paper generator'']"

definition seoKeywords_longtail :: "string list" where
  "seoKeywords_longtail =
    [''how to write a thesis introduction'',
     ''best AI thesis generator 2026'',
     ''thesis writing software free'',
     ''how to structure a dissertation'',
     ''AI tools for academic writing'',
     ''thesis writing step by step guide'',
     ''how to write methodology chapter'',
     ''thesis literature review example'',
     ''automatic thesis statement generator'',
     ''ai for literature review'',
     ''best dissertation writing services ai'']"

text \<open>
  What a run receives from outside: the working directory, the environment variables
  \<^verbatim>\<open>TOPIC\<close> and \<^verbatim>\<open>KEYWORDS\<close> (the latter already split and trimmed), the values
  of the five calls of \<^verbatim>\<open>Math.random()\<close>, the ISO texts of the three
  \<^verbatim>\<open>new Date()\<close>, and the outcome of \<^verbatim>\<open>fetch\<close>: \<open>None\<close> when it rejects,
  otherwise the response with \<^verbatim>\<open>ok\<close>, \<^verbatim>\<open>status\<close> and the text of the body. The
  prompt only travels to the remote API and is not part of the model.
\<close>

record response =
  ok :: bool
  status :: nat
  body :: string

record run =
  workDir :: string
  envTopic :: string
  envKeywords :: "string list"
  rTopic :: real
  rImage :: real
  rPrimary :: real
  rSecondary :: real
  rLongtail :: real
  nowDate :: string
  nowMdx :: string
  nowPost :: string
  fetched :: "response option"

datatype outcome = Returned string | Exited nat | Uncaught jsError

text \<open>
  \<^verbatim>\<open>keywords.length > 0 ? keywords : [three random SEO keywords]\<close>. A draw outside
  \<open>0 \<le> r < 1\<close>, which \<^verbatim>\<open>Math.random()\<close> never makes, gives \<open>None\<close>.
\<close>

definition selectKeywords :: "run \<Rightarrow> string list option" where
  "selectKeywords i =
     (if length (envKeywords i) > 0 then Some (envKeywords i)
      else (case (pick (rPrimary i) seoKeywords_primary,
                  pick (rSecondary i) seoKeywords_secondary,
                  pick (rLongtail i) seoKeywords_longtail) of
              (Some a, Some b, Some c) \<Rightarrow> Some [a, b, c]
            | _ \<Rightarrow> None))"

text \<open>
  From the request to the decoded payload: the first half of the \<^verbatim>\<open>try\<close> block.
  Every \<open>Inl\<close> is an exception raised there.
\<close>

definition requestContent :: "codec \<Rightarrow> run \<Rightarrow> jsError + blogData" where
  "requestContent c i =
     (case fetched i of
        None \<Rightarrow> Inl FetchFailed
      | Some resp \<Rightarrow>
          if \<not> ok resp then Inl (ApiError (status resp) (body resp))
          else (case parseCompletion c (body resp) of
                  None \<Rightarrow> Inl SyntaxError
                | Some None \<Rightarrow> Inl NoResponse
                | Some (Some content) \<Rightarrow>
                    if content = [] then Inl NoResponse
                    else (case parseBlogData c content of
                            None \<Rightarrow> Inl SyntaxError
                          | Some blog \<Rightarrow> Inr blog)))"

definition nl :: string where
  "nl = [CHR 0x0A]"

definition quoted :: "string \<Rightarrow> string \<Rightarrow> string" where
  "quoted k v = k @ '': '' @ [CHR 0x22] @ v @ [CHR 0x22] @ nl"

definition unquoted :: "string \<Rightarrow> string \<Rightarrow> string" where
  "unquoted k v = k @ '': '' @ v @ nl"

definition mdxContent ::
  "codec \<Rightarrow> run \<Rightarrow> topicRecord \<Rightarrow> string \<Rightarrow> string list \<Rightarrow> blogData \<Rightarrow> string \<Rightarrow> string \<Rightarrow> string \<Rightarrow> string"
where
  "mdxContent c i selectedTopic selectedImage selectedKeywords blog theDate theSlug theFilename =
     ''---'' @ nl @
     quoted ''title'' (bdTitle blog) @
     quoted ''description'' (bdDescription blog) @
     quoted ''excerpt'' (bdExcerpt blog) @
     quoted ''date'' theDate @
     quoted ''publishedAt'' (nowMdx i) @
     quoted ''author'' (bdAuthor blog) @
     quoted ''category'' (category selectedTopic) @
     unquoted ''tags'' (stringifyStrings c (bdTags blog)) @
     unquoted ''keywords''
       (stringifyStrings c
          (case bdKeywords blog of Some ks \<Rightarrow> ks | None \<Rightarrow> selectedKeywords)) @
     quoted ''image'' selectedImage @
     quoted ''readTime'' (bdReadTime blog) @
     unquoted ''featured'' (if featured selectedTopic then ''true'' else ''false'') @
     quoted ''slug'' theSlug @
     quoted ''filename'' theFilename @
     ''---'' @ nl @ nl @ bdContent blog @ nl"

text \<open>
  The second half of the \<^verbatim>\<open>try\<close> block: the document and the index are written. The
  result carries the file system as it is when the block ends, by \<^verbatim>\<open>return\<close> or by
  an exception.
\<close>

definition writeOutputs ::
  "codec \<Rightarrow> run \<Rightarrow> topicRecord \<Rightarrow> string \<Rightarrow> string list \<Rightarrow> blogData \<Rightarrow> filesystem
     \<Rightarrow> (jsError + string) \<times> filesystem"
where
  "writeOutputs c i selectedTopic selectedImage selectedKeywords blog fs =
     (let theDate = hd (splitOn CHR ''T'' (nowDate i));
          theSlug = (case bdSlug blog of
                       Some s \<Rightarrow> if s = [] then generateSlug (bdTitle blog) else s
                     | None \<Rightarrow> generateSlug (bdTitle blog));
          theFilename = theDate @ ''-'' @ theSlug @ ''.mdx'';
          outputDir = pathJoin (workDir i) ''generated-posts'';
          fs1 = (if \<not> existsSync fs outputDir then mkdirSync fs outputDir else fs);
          filepath = pathJoin outputDir theFilename;
          indexPath = pathJoin outputDir ''index.json''
      in case writeFileSync fs1 filepath
                (mdxContent c i selectedTopic selectedImage selectedKeywords blog
                   theDate theSlug theFilename) of
           Inl e \<Rightarrow> (Inl e, fs1)
         | Inr fs2 \<Rightarrow>
             (case (if existsSync fs2 indexPath then readIndex c fs2 indexPath else Inr []) of
                Inl e \<Rightarrow> (Inl e, fs2)
              | Inr posts \<Rightarrow>
                  (let newPost =
                         \<lparr>slug = theSlug, title = bdTitle blog, excerpt = bdExcerpt blog,
                          description = bdDescription blog, date = theDate,
                          publishedAt = nowPost i, author = bdAuthor blog,
                          postCategory = category selectedTopic, tags = bdTags blog,
                          postKeywords = (case bdKeywords blog of
                                        Some ks \<Rightarrow> ks | None \<Rightarrow> selectedKeywords),
                          imageUrl = selectedImage, readTime = bdReadTime blog,
                          postFeatured = featured selectedTopic, filename = theFilename\<rparr>
                   in case writeFileSync fs2 indexPath
                             (stringifyIndex c (upsertPost newPost posts)) of
                        Inl e \<Rightarrow> (Inl e, fs2)
                      | Inr fs3 \<Rightarrow> (Inr filepath, fs3))))"

text \<open>
  \<open>generateBlogPost\<close>: history, selection, then the \<^verbatim>\<open>try\<close> block, whose
  \<^verbatim>\<open>catch\<close> ends the process with exit code 1. The selection stands before the
  \<^verbatim>\<open>try\<close>; a draw outside \<open>0 \<le> r < 1\<close> would leave it with \<^verbatim>\<open>undefined\<close>, and the
  model ends such a run there.
\<close>

definition generateBlogPost :: "codec \<Rightarrow> run \<Rightarrow> filesystem \<Rightarrow> outcome \<times> filesystem" where
  "generateBlogPost c i fs =
     (case (getRecentlyUsedImages c fs (workDir i), getRecentTopics c fs (workDir i)) of
        (Inr usedImages, Inr usedTopics) \<Rightarrow>
          (case selectTopic (rTopic i) (envTopic i) usedTopics of
             None \<Rightarrow> (Uncaught TypeError, fs)
           | Some selectedTopic \<Rightarrow>
               (case (selectUniqueImage (rImage i) (category selectedTopic) usedImages,
                      selectKeywords i) of
                  (Some selectedImage, Some selectedKeywords) \<Rightarrow>
                    (case requestContent c i of
                       Inl e \<Rightarrow> (Exited 1, fs)
                     | Inr blog \<Rightarrow>
                         (case writeOutputs c i selectedTopic selectedImage selectedKeywords
                                 blog fs of
                            (Inl e, fs') \<Rightarrow> (Exited 1, fs')
                          | (Inr filepath, fs') \<Rightarrow> (Returned filepath, fs')))
                | _ \<Rightarrow> (Uncaught TypeError, fs)))
      | (Inl e, _) \<Rightarrow> (Uncaught e, fs)
      | (_, Inl e) \<Rightarrow> (Uncaught e, fs))"

text \<open>The values that \<^verbatim>\<open>Math.random()\<close> can return.\<close>

definition validDraws :: "run \<Rightarrow> bool" where
  "validDraws i =
     (0 \<le> rTopic i \<and> rTopic i < 1 \<and> 0 \<le> rImage i \<and> rImage i < 1 \<and>
      0 \<le> rPrimary i \<and> rPrimary i < 1 \<and> 0 \<le> rSecondary i \<and> rSecondary i < 1 \<and>
      0 \<le> rLongtail i \<and> rLongtail i < 1)"

section \<open>Sample data\<close>


definition examplePost :: "string \<Rightarrow> string \<Rightarrow> post" where
  "examplePost s t =
     \<lparr>slug = s, title = t, excerpt = ''An excerpt'', description = ''A description'',
      date = ''2026-01-01'', publishedAt = ''2026-01-01T09:00:00.000Z'',
      author = ''Thesis Generator Research Team'', postCategory = ''Guides'',
      tags = [''thesis''], postKeywords = [''thesis defense''], imageUrl = hd guidesImages,
      readTime = ''5 min read'', postFeatured = False,
      filename = ''2026-01-01-'' @ s @ ''.mdx''\<rparr>"

definition exampleCodec :: codec where
  "exampleCodec =
     \<lparr>parseIndex = (\<lambda>s. if s = ''[]'' then Some [] else None),
      parseCompletion = (\<lambda>s. if s = ''{}'' then Some None else Some (Some s)),
      parseBlogData =
        (\<lambda>s. if s = ''oops'' then None
             else Some \<lparr>bdTitle = s, bdSlug = None, bdDescription = ''A description'',
                        bdExcerpt = ''An excerpt'', bdAuthor = ''Thesis Generator Research Team'',
                        bdTags = [''thesis''], bdKeywords = None, bdReadTime = ''5 min read'',
                        bdContent = ''Body''\<rparr>),
      stringifyIndex = (\<lambda>posts. concat (map (\<lambda>p. slug p @ '';'') posts)),
      stringifyStrings = (\<lambda>xs. concat (map (\<lambda>x. x @ '';'') xs))\<rparr>"

definition exampleRun :: "response option \<Rightarrow> run" where
  "exampleRun resp =
     \<lparr>workDir = ''/repo'', envTopic = ''Thesis Defense'', envKeywords = [''thesis''],
      rTopic = 0, rImage = 0, rPrimary = 0, rSecondary = 0, rLongtail = 0,
      nowDate = ''2026-01-05T09:00:00.000Z'', nowMdx = ''2026-01-05T09:00:00.001Z'',
      nowPost = ''2026-01-05T09:00:00.002Z'', fetched = resp\<rparr>"

section \<open>Properties of slug derivation\<close>

lemma charCode_hyphen: "charCode hyphen = 45"
  by (simp add: hyphen_def charCode_def)

lemma hyphen_not_space: "\<not> isSpace hyphen"
  by (simp add: isSpace_def charCode_hyphen)

lemma lowerAlnum_not_space: "isLowerAlnum c \<Longrightarrow> \<not> isSpace c"
  unfolding isLowerAlnum_def isSpace_def by auto

lemma slugChar_not_space: "isSlugChar c \<Longrightarrow> \<not> isSpace c"
  using hyphen_not_space lowerAlnum_not_space by (auto simp: isSlugChar_def)

lemma toLowerChar_alnum: "isLowerAlnum c \<Longrightarrow> toLowerChar c = c"
  unfolding isLowerAlnum_def toLowerChar_def by auto

lemma toLowerChar_hyphen: "toLowerChar hyphen = hyphen"
  by (simp add: toLowerChar_def charCode_hyphen)

lemma toLowerChar_slugChar: "isSlugChar c \<Longrightarrow> toLowerChar c = c"
  using toLowerChar_alnum toLowerChar_hyphen by (auto simp: isSlugChar_def)

lemma set_replaceRuns: "set (replaceRuns P s) \<subseteq> insert hyphen {c \<in> set s. \<not> P c}"
proof (induction P s rule: replaceRuns.induct)
  case (1 P)
  show ?case by simp
next
  case (2 P c cs)
  show ?case
  proof (cases "P c")
    case True
    have "set (dropWhile P cs) \<subseteq> set cs"
      by (rule subsetI) (rule set_dropWhileD)
    with True 2(1) show ?thesis by auto
  next
    case False
    with 2(2) show ?thesis by auto
  qed
qed

lemma replaceRuns_id: "\<forall>c \<in> set s. \<not> P c \<Longrightarrow> replaceRuns P s = s"
  by (induction s) auto

lemma replaceRuns_hd:
  "replaceRuns P s \<noteq> [] \<Longrightarrow> hd (replaceRuns P s) = (if P (hd s) then hyphen else hd s)"
  by (cases s) auto

lemma replaceRuns_Nil_iff: "replaceRuns P s = [] \<longleftrightarrow> s = []"
  by (cases s) auto

lemma noDoubleHyphen_Cons:
  "noDoubleHyphen (a # s) =
     ((s \<noteq> [] \<longrightarrow> \<not> (a = hyphen \<and> hd s = hyphen)) \<and> noDoubleHyphen s)"
  by (cases s) auto

lemma noDoubleHyphen_collapse: "noDoubleHyphen (replaceRuns (\<lambda>c. c = hyphen) s)"
proof (induction "\<lambda>c. c = hyphen" s rule: replaceRuns.induct)
  case 1
  show ?case by simp
next
  case (2 c cs)
  show ?case
  proof (cases "c = hyphen")
    case True
    let ?r = "dropWhile (\<lambda>c. c = hyphen) cs"
    have "?r \<noteq> [] \<Longrightarrow> hd ?r \<noteq> hyphen"
      using hd_dropWhile[of "\<lambda>c. c = hyphen" cs] by simp
    then have "replaceRuns (\<lambda>c. c = hyphen) ?r \<noteq> [] \<Longrightarrow>
        hd (replaceRuns (\<lambda>c. c = hyphen) ?r) \<noteq> hyphen"
      by (simp add: replaceRuns_hd replaceRuns_Nil_iff)
    with True 2(1) show ?thesis by (simp add: noDoubleHyphen_Cons)
  next
    case False
    with 2(2) show ?thesis by (simp add: noDoubleHyphen_Cons)
  qed
qed

lemma collapse_id: "noDoubleHyphen s \<Longrightarrow> replaceRuns (\<lambda>c. c = hyphen) s = s"
proof (induction s rule: noDoubleHyphen.induct)
  case 1
  show ?case by simp
next
  case (2 c)
  show ?case by simp
next
  case (3 a b cs)
  then show ?case by (cases "b = hyphen") auto
qed

lemma dropWhile_none: "\<forall>c \<in> set s. \<not> P c \<Longrightarrow> dropWhile P s = s"
  by (cases s) auto

lemma trim_id: "\<forall>c \<in> set s. \<not> isSpace c \<Longrightarrow> trim s = s"
proof -
  assume h: "\<forall>c \<in> set s. \<not> isSpace c"
  then have "dropWhile isSpace s = s" by (rule dropWhile_none)
  moreover from h have "\<forall>c \<in> set (rev s). \<not> isSpace c" by simp
  then have "dropWhile isSpace (rev s) = rev s" by (rule dropWhile_none)
  ultimately show ?thesis by (simp add: trim_def)
qed

lemma noDoubleHyphen_take: "noDoubleHyphen s \<Longrightarrow> noDoubleHyphen (take n s)"
proof (induction s arbitrary: n)
  case Nil
  show ?case by simp
next
  case (Cons a s)
  show ?case
  proof (cases n)
    case 0
    then show ?thesis by simp
  next
    case (Suc m)
    from Cons.prems have t: "noDoubleHyphen s"
      and h: "s \<noteq> [] \<longrightarrow> \<not> (a = hyphen \<and> hd s = hyphen)"
      by (simp_all add: noDoubleHyphen_Cons)
    have "take m s \<noteq> [] \<Longrightarrow> hd (take m s) = hd s" by (cases m; cases s) auto
    moreover have "take m s \<noteq> [] \<Longrightarrow> s \<noteq> []" by auto
    ultimately show ?thesis
      using Suc h Cons.IH[OF t, of m] by (auto simp add: noDoubleHyphen_Cons)
  qed
qed

lemma slugBody_chars: "c \<in> set (slugBody s) \<Longrightarrow> isSlugChar c"
proof -
  let ?f = "filter (\<lambda>c. isLowerAlnum c \<or> isSpace c \<or> c = hyphen) (toLowerCase s)"
  assume "c \<in> set (slugBody s)"
  then have "c = hyphen \<or> c \<in> set (replaceRuns isSpace ?f)"
    using set_replaceRuns[of "\<lambda>c. c = hyphen" "replaceRuns isSpace ?f"]
    by (auto simp: slugBody_def)
  then have "c = hyphen \<or> (c \<in> set ?f \<and> \<not> isSpace c)"
    using set_replaceRuns[of isSpace ?f] by auto
  then show ?thesis by (auto simp: isSlugChar_def)
qed

lemma trim_slugBody: "trim (slugBody s) = slugBody s"
  by (rule trim_id) (auto dest: slugBody_chars slugChar_not_space)

lemma slugBody_id:
  assumes "list_all isSlugChar s" and "noDoubleHyphen s"
  shows "slugBody s = s"
proof -
  from assms(1) have a: "\<forall>c \<in> set s. isSlugChar c" by (simp add: list_all_iff)
  then have "toLowerCase s = s"
    by (simp add: toLowerCase_def toLowerChar_slugChar map_idI)
  moreover from a have "filter (\<lambda>c. isLowerAlnum c \<or> isSpace c \<or> c = hyphen) s = s"
    by (auto simp: isSlugChar_def filter_id_conv)
  moreover from a have "replaceRuns isSpace s = s"
    by (auto intro: replaceRuns_id dest: slugChar_not_space)
  ultimately show ?thesis using assms(2) by (simp add: slugBody_def collapse_id)
qed


lemma generateSlug_alt: "generateSlug s = take 60 (slugBody s)"
  by (simp only: generateSlug_def trim_slugBody)

lemma generateSlug_length: "length (generateSlug s) \<le> 60"
  by (simp add: generateSlug_def)

lemma generateSlug_chars: "list_all isSlugChar (generateSlug s)"
  unfolding generateSlug_alt list_all_iff
  by (blast dest: in_set_takeD slugBody_chars)

lemma generateSlug_noDoubleHyphen: "noDoubleHyphen (generateSlug s)"
  unfolding generateSlug_alt slugBody_def
  by (rule noDoubleHyphen_take) (rule noDoubleHyphen_collapse)

lemma generateSlug_fix:
  assumes "list_all isSlugChar s" and "noDoubleHyphen s" and "length s \<le> 60"
  shows "generateSlug s = s"
proof -
  have "slugBody s = s" using assms(1,2) by (rule slugBody_id)
  with assms(3) show ?thesis by (simp add: generateSlug_alt)
qed

lemma generateSlug_idempotent: "generateSlug (generateSlug s) = generateSlug s"
  by (rule generateSlug_fix)
    (rule generateSlug_chars, rule generateSlug_noDoubleHyphen, rule generateSlug_length)


text \<open>
  C10. For every input string, the result of \<open>generateSlug\<close> has at most 60 characters,
  all of them lower-case ASCII letters, digits or hyphens, and no two hyphens in a row. It
  may begin and end with a hyphen: white space has already become hyphens when \<open>trim\<close>
  runs, so \<open>trim\<close> changes nothing, and \<open>" a "\<close> gives \<open>"-a-"\<close>.
\<close>

theorem generateSlug_shape:
  "length (generateSlug s) \<le> 60 \<and> list_all isSlugChar (generateSlug s) \<and>
   noDoubleHyphen (generateSlug s) \<and> trim (slugBody s) = slugBody s \<and>
   generateSlug '' a '' = ''-a-''"
proof -
  have "generateSlug '' a '' = ''-a-''" by code_simp
  then show ?thesis
    using generateSlug_length generateSlug_chars generateSlug_noDoubleHyphen trim_slugBody
    by blast
qed

theorem generateSlug_shape_witness:
  "length (generateSlug ''Why  AI?  -- a Guide '') \<le> 60 \<and>
   list_all isSlugChar (generateSlug ''Why  AI?  -- a Guide '') \<and>
   noDoubleHyphen (generateSlug ''Why  AI?  -- a Guide '') \<and>
   generateSlug ''Why  AI?  -- a Guide '' = ''why-ai-a-guide-''"
proof -
  have "generateSlug ''Why  AI?  -- a Guide '' = ''why-ai-a-guide-''"
    by code_simp
  with generateSlug_shape[of "''Why  AI?  -- a Guide ''"] show ?thesis by blast
qed

text \<open>
  C3, as stated, fails: \<open>"a--b"\<close> is lower-case, has 4 characters, all of them letters
  or hyphens, and \<open>generateSlug\<close> returns \<open>"a-b"\<close>, since a run of hyphens is
  collapsed to one hyphen.
\<close>

theorem generateSlug_double_hyphen_counterexample:
  "toLowerCase ''a--b'' = ''a--b'' \<and> list_all isSlugChar ''a--b'' \<and>
   length ''a--b'' \<le> 60 \<and> generateSlug ''a--b'' = ''a-b'' \<and>
   generateSlug ''a--b'' \<noteq> ''a--b''"
  by code_simp

text \<open>
  C3, amended. For every string of at most 60 characters that consists only of lower-case
  ASCII letters, digits and hyphens and has no two hyphens in a row, \<open>generateSlug\<close>
  returns the string itself.
\<close>

theorem generateSlug_fixpoint:
  assumes "list_all isSlugChar s" and "noDoubleHyphen s" and "length s \<le> 60"
  shows "generateSlug s = s"
  using assms by (rule generateSlug_fix)

theorem generateSlug_fixpoint_witness:
  "list_all isSlugChar ''-thesis-defense-2026'' \<and> noDoubleHyphen ''-thesis-defense-2026'' \<and>
   length ''-thesis-defense-2026'' \<le> 60 \<and>
   generateSlug ''-thesis-defense-2026'' = ''-thesis-defense-2026''"
proof -
  have a: "list_all isSlugChar ''-thesis-defense-2026''" by code_simp
  have b: "noDoubleHyphen ''-thesis-defense-2026''" by code_simp
  have c: "length ''-thesis-defense-2026'' \<le> 60" by simp
  from generateSlug_fixpoint[OF a b c] a b c show ?thesis by (intro conjI)
qed

section \<open>Properties of topic selection\<close>

lemma randomIndex_range:
  assumes "0 \<le> r" and "r < 1" and "0 < n"
  shows "0 \<le> randomIndex r n \<and> randomIndex r n < int n"
proof -
  have "0 \<le> r * real n" using assms by simp
  moreover have "r * real n < real n" using assms by simp
  ultimately show ?thesis
    unfolding randomIndex_def by (simp add: floor_less_iff)
qed

lemma pick_Some:
  assumes "0 \<le> r" and "r < 1" and "xs \<noteq> []"
  shows "\<exists>x. pick r xs = Some x \<and> x \<in> set xs"
proof -
  from assms(3) have "0 < length xs" by simp
  from randomIndex_range[OF assms(1,2) this]
  have a: "0 \<le> randomIndex r (length xs)" and b: "randomIndex r (length xs) < int (length xs)"
    by simp_all
  then have "nat (randomIndex r (length xs)) < length xs" by simp
  then have "xs ! nat (randomIndex r (length xs)) \<in> set xs" by (rule nth_mem)
  with a b show ?thesis by (simp add: pick_def)
qed

lemma pick_mem: "pick r xs = Some x \<Longrightarrow> x \<in> set xs"
  by (auto simp: pick_def split: if_splits)

lemma pick_any:
  assumes "x \<in> set xs"
  shows "\<exists>r. 0 \<le> r \<and> r < 1 \<and> pick r xs = Some x"
proof -
  from assms obtain i where i: "i < length xs" and x: "xs ! i = x"
    by (auto simp: in_set_conv_nth)
  define r where "r = real i / real (length xs)"
  have "0 < length xs" using i by (cases xs) auto
  then have n: "0 < real (length xs)" by simp
  have "r * real (length xs) = real i" using n by (simp add: r_def)
  then have ri: "randomIndex r (length xs) = int i" by (simp add: randomIndex_def)
  have "0 \<le> r" by (simp add: r_def)
  moreover have "r < 1" using i n by (simp add: r_def)
  moreover have "pick r xs = Some x" using i x by (simp add: pick_def ri)
  ultimately show ?thesis by blast
qed

lemma length_TOPIC_POOL: "length TOPIC_POOL = 30"
  by (simp add: TOPIC_POOL_def)


lemma availableTopics_subset: "set (availableTopics usedTopics) \<subseteq> set TOPIC_POOL"
  by (auto simp: availableTopics_def)


lemma topicsToChoose_nonempty: "topicsToChoose usedTopics \<noteq> []"
proof (cases "5 < length (availableTopics usedTopics)")
  case True
  then show ?thesis by (auto simp: topicsToChoose_def)
next
  case False
  then show ?thesis using length_TOPIC_POOL by (auto simp: topicsToChoose_def)
qed

lemma topicsToChoose_subset: "set (topicsToChoose usedTopics) \<subseteq> set TOPIC_POOL"
  using availableTopics_subset by (auto simp: topicsToChoose_def)







lemma startsWith_prefix: "startsWith s sub \<longleftrightarrow> prefix sub s"
  by (induction s sub rule: startsWith.induct) auto

lemma includesStr_sublist: "includesStr s sub \<longleftrightarrow> sublist sub s"
  by (induction s) (auto simp: startsWith_prefix sublist_Cons_right)

lemma includesStr_iff: "includesStr s sub \<longleftrightarrow> (\<exists>pre suf. s = pre @ sub @ suf)"
  by (simp add: includesStr_sublist sublist_def)

lemma topicMatches_iff:
  "topicMatches providedTopic t \<longleftrightarrow>
     (\<exists>pre suf. toLowerCase (topic t) = pre @ toLowerCase providedTopic @ suf) \<or>
     (\<exists>pre suf. toLowerCase providedTopic = pre @ toLowerCase (topic t) @ suf)"
  by (simp add: topicMatches_def includesStr_iff)

lemma find_thesis_defense:
  "find (topicMatches ''Thesis Defense'') TOPIC_POOL =
     Some \<lparr>topic = ''How to Prepare for Your Thesis Defense'', category = ''Guides'',
           featured = True\<rparr>"
  by code_simp

lemma selectTopic_provided:
  "providedTopic \<noteq> [] \<Longrightarrow> trim providedTopic \<noteq> [] \<Longrightarrow>
     selectTopic r providedTopic usedTopics =
       Some (case find (topicMatches providedTopic) TOPIC_POOL of
               Some t \<Rightarrow> t
             | None \<Rightarrow> \<lparr>topic = providedTopic, category = ''Guides'', featured = False\<rparr>)"
  by (simp add: selectTopic_def)

lemma selectTopic_thesis_defense:
  "selectTopic r ''Thesis Defense'' usedTopics =
     Some \<lparr>topic = ''How to Prepare for Your Thesis Defense'', category = ''Guides'',
           featured = True\<rparr>"
proof -
  have a: "''Thesis Defense'' \<noteq> []" by simp
  have b: "trim ''Thesis Defense'' \<noteq> []" by code_simp
  show ?thesis
    by (simp only: selectTopic_provided[OF a b] find_thesis_defense option.case)
qed

text \<open>
  C8. With a caller-supplied topic that is not blank, the topic selection returns a pool
  record whose lower-cased topic contains the lower-cased supplied topic or is contained
  in it, when such a record exists; otherwise it returns the ad-hoc record with the
  supplied topic, category \<open>Guides\<close> and \<open>featured\<close> false. The supplied topic
  \<open>Thesis Defense\<close> gives the pool record \<open>How to Prepare for Your Thesis Defense\<close>
  with category \<open>Guides\<close> and \<open>featured\<close> true.
\<close>

theorem selectTopic_override:
  assumes "providedTopic \<noteq> []" and "trim providedTopic \<noteq> []"
  shows "(\<exists>t. selectTopic r providedTopic usedTopics = Some t \<and>
            ((t \<in> set TOPIC_POOL \<and>
              ((\<exists>pre suf. toLowerCase (topic t) = pre @ toLowerCase providedTopic @ suf) \<or>
               (\<exists>pre suf. toLowerCase providedTopic = pre @ toLowerCase (topic t) @ suf)))
             \<or>
             (t = \<lparr>topic = providedTopic, category = ''Guides'', featured = False\<rparr> \<and>
              (\<forall>p \<in> set TOPIC_POOL.
                 \<not> ((\<exists>pre suf. toLowerCase (topic p) = pre @ toLowerCase providedTopic @ suf) \<or>
                    (\<exists>pre suf. toLowerCase providedTopic = pre @ toLowerCase (topic p) @ suf))))))
         \<and> selectTopic r ''Thesis Defense'' usedTopics =
             Some \<lparr>topic = ''How to Prepare for Your Thesis Defense'', category = ''Guides'',
                   featured = True\<rparr>"
proof -
  have "\<exists>t. selectTopic r providedTopic usedTopics = Some t \<and>
            ((t \<in> set TOPIC_POOL \<and> topicMatches providedTopic t) \<or>
             (t = \<lparr>topic = providedTopic, category = ''Guides'', featured = False\<rparr> \<and>
              (\<forall>p \<in> set TOPIC_POOL. \<not> topicMatches providedTopic p)))"
  proof (cases "find (topicMatches providedTopic) TOPIC_POOL")
    case None
    then have "\<forall>p \<in> set TOPIC_POOL. \<not> topicMatches providedTopic p"
      by (simp add: find_None_iff)
    with None show ?thesis by (simp add: selectTopic_provided[OF assms])
  next
    case (Some t)
    then have "t \<in> set TOPIC_POOL \<and> topicMatches providedTopic t"
      by (auto simp: find_Some_iff)
    with Some show ?thesis by (simp add: selectTopic_provided[OF assms])
  qed
  then show ?thesis
    unfolding topicMatches_iff using selectTopic_thesis_defense by blast
qed

lemma find_quantum:
  "find (topicMatches ''Quantum Computing'') TOPIC_POOL = None"
  by code_simp

theorem selectTopic_override_witness:
  "''Quantum Computing'' \<noteq> [] \<and> trim ''Quantum Computing'' \<noteq> [] \<and>
   selectTopic 0 ''Quantum Computing'' [] =
     Some \<lparr>topic = ''Quantum Computing'', category = ''Guides'', featured = False\<rparr> \<and>
   selectTopic 0 ''Thesis Defense'' [] =
     Some \<lparr>topic = ''How to Prepare for Your Thesis Defense'', category = ''Guides'',
           featured = True\<rparr>"
proof -
  have a: "''Quantum Computing'' \<noteq> []" by simp
  have b: "trim ''Quantum Computing'' \<noteq> []" by code_simp
  have c: "selectTopic 0 ''Quantum Computing'' [] =
     Some \<lparr>topic = ''Quantum Computing'', category = ''Guides'', featured = False\<rparr>"
    by (simp only: selectTopic_provided[OF a b] find_quantum option.case)
  from selectTopic_override[OF a b, of 0 "[]"]
  have d: "selectTopic 0 ''Thesis Defense'' [] =
     Some \<lparr>topic = ''How to Prepare for Your Thesis Defense'', category = ''Guides'',
           featured = True\<rparr>"
    by (rule conjunct2)
  from a b c d show ?thesis by (intro conjI)
qed

section \<open>Properties of image selection\<close>

lemma categoryImages_length:
  "map_of categoryImages cat = Some images \<Longrightarrow> length images = 6"
  by (auto simp: categoryImages_def split: if_splits)

lemma categoryImages_Guides: "map_of categoryImages ''Guides'' = Some guidesImages"
  by (simp add: categoryImages_def guidesImages_def)

lemma imagesFor_key: "map_of categoryImages cat = Some images \<Longrightarrow> imagesFor cat = Some images"
  by (simp add: imagesFor_def lookupCategory_def)

lemma imagesFor_undefined:
  "map_of categoryImages cat = None \<Longrightarrow> cat \<notin> set objectPrototypeNames \<Longrightarrow>
     imagesFor cat = Some guidesImages"
  by (simp add: imagesFor_def lookupCategory_def categoryImages_Guides)



lemma selectUniqueImage_from:
  assumes "imagesFor cat = Some images" and "images \<noteq> []" and "0 \<le> r" and "r < 1"
  shows "\<exists>u. selectUniqueImage r cat usedImages = Some u \<and> u \<in> set images \<and>
           (u \<notin> set usedImages \<or> set images \<subseteq> set usedImages)"
proof (cases "filter (\<lambda>img. img \<notin> set usedImages) images = []")
  case True
  then have s: "set images \<subseteq> set usedImages" by (auto simp: filter_empty_conv)
  from True assms(1) have "selectUniqueImage r cat usedImages = pick r images"
    by (simp add: selectUniqueImage_def)
  with pick_Some[OF assms(3,4,2)] s show ?thesis by auto
next
  case False
  with assms(1) have "selectUniqueImage r cat usedImages =
      pick r (filter (\<lambda>img. img \<notin> set usedImages) images)"
    by (simp add: selectUniqueImage_def)
  with pick_Some[OF assms(3,4) False] show ?thesis by auto
qed

text \<open>
  C6. When the recently used images contain every image of a category's curated list,
  \<open>selectUniqueImage\<close> still returns an image, a member of that curated list.
\<close>

theorem selectUniqueImage_all_used:
  assumes "map_of categoryImages cat = Some images"
    and "set images \<subseteq> set usedImages" and "0 \<le> r" and "r < 1"
  shows "\<exists>u. selectUniqueImage r cat usedImages = Some u \<and> u \<in> set images"
proof -
  from assms(1) have a: "imagesFor cat = Some images" by (rule imagesFor_key)
  from categoryImages_length[OF assms(1)] have b: "images \<noteq> []" by auto
  from selectUniqueImage_from[OF a b assms(3,4)] show ?thesis by blast
qed

theorem selectUniqueImage_all_used_witness:
  "map_of categoryImages ''Guides'' = Some guidesImages \<and>
   set guidesImages \<subseteq> set (''https://example.org/other.png'' # guidesImages) \<and>
   (0::real) \<le> 99 / 100 \<and> (99 / 100 :: real) < 1 \<and>
   selectUniqueImage (99 / 100) ''Guides'' (''https://example.org/other.png'' # guidesImages) =
     Some ''https://images.unsplash.com/photo-1503676260728-1c00da094a0b?w=800&q=80'' \<and>
   (\<exists>u. selectUniqueImage (99 / 100) ''Guides'' (''https://example.org/other.png'' # guidesImages)
          = Some u \<and> u \<in> set guidesImages)"
proof -
  let ?used = "''https://example.org/other.png'' # guidesImages"
  have a: "map_of categoryImages ''Guides'' = Some guidesImages" by (rule categoryImages_Guides)
  have b: "set guidesImages \<subseteq> set ?used" by auto
  have c: "(0::real) \<le> 99 / 100" and d: "(99 / 100 :: real) < 1" by simp_all
  have f: "filter (\<lambda>img. img \<notin> set ?used) guidesImages = []"
    by (simp add: filter_empty_conv)
  have "pick (99 / 100) guidesImages =
      Some ''https://images.unsplash.com/photo-1503676260728-1c00da094a0b?w=800&q=80''"
    by (simp add: pick_def randomIndex_def guidesImages_def)
  then have e: "selectUniqueImage (99 / 100) ''Guides'' ?used =
      Some ''https://images.unsplash.com/photo-1503676260728-1c00da094a0b?w=800&q=80''"
    by (simp add: selectUniqueImage_def imagesFor_key[OF a] f)
  from a b c d e selectUniqueImage_all_used[OF a b c d] show ?thesis by (intro conjI)
qed

text \<open>
  A name that is neither a key of the map nor inherited takes the list of \<open>Guides\<close>.
\<close>

lemma selectUniqueImage_fallback:
  assumes "map_of categoryImages cat = None" and "cat \<notin> set objectPrototypeNames"
    and "0 \<le> r" and "r < 1"
  shows "\<exists>u. selectUniqueImage r cat usedImages = Some u \<and> u \<in> set guidesImages"
proof -
  from assms(1,2) have a: "imagesFor cat = Some guidesImages" by (rule imagesFor_undefined)
  have b: "guidesImages \<noteq> []" by (simp add: guidesImages_def)
  from selectUniqueImage_from[OF a b assms(3,4)] show ?thesis by blast
qed

lemma selectUniqueImage_fallback_example:
  "selectUniqueImage 0 ''News''
       [''https://images.unsplash.com/photo-1523050854058-8df90110c9f1?w=800&q=80''] =
     Some ''https://images.unsplash.com/photo-1541339907198-e08756dedf3f?w=800&q=80''"
proof -
  have a: "map_of categoryImages ''News'' = None" by (simp add: categoryImages_def)
  have b: "''News'' \<notin> set objectPrototypeNames" by (simp add: objectPrototypeNames_def)
  show ?thesis
    by (simp add: selectUniqueImage_def imagesFor_undefined[OF a b] pick_def randomIndex_def
        guidesImages_def)
qed


section \<open>Properties of the index\<close>




lemma upsertPost_slugs:
  "map slug (upsertPost newPost posts) = slug newPost # filter (\<lambda>s. s \<noteq> slug newPost) (map slug posts)"
  by (simp add: upsertPost_def filter_map comp_def)

text \<open>
  C5. If no two records of the index share a slug, then no two records of the list made by
  the upsert share a slug.
\<close>

theorem upsertPost_distinct:
  assumes "distinct (map slug posts)"
  shows "distinct (map slug (upsertPost newPost posts))"
  using assms by (simp add: upsertPost_slugs)

theorem upsertPost_distinct_witness:
  "distinct (map slug [examplePost ''a'' ''A'', examplePost ''x'' ''Old'']) \<and>
   map slug (upsertPost (examplePost ''x'' ''New'')
               [examplePost ''a'' ''A'', examplePost ''x'' ''Old'']) = [''x'', ''a''] \<and>
   distinct (map slug (upsertPost (examplePost ''x'' ''New'')
                         [examplePost ''a'' ''A'', examplePost ''x'' ''Old'']))"
proof -
  let ?posts = "[examplePost ''a'' ''A'', examplePost ''x'' ''Old'']"
  have a: "distinct (map slug ?posts)" by (simp add: examplePost_def)
  have b: "map slug (upsertPost (examplePost ''x'' ''New'') ?posts) = [''x'', ''a'']"
    by (simp add: upsertPost_def examplePost_def)
  from a b upsertPost_distinct[OF a, of "examplePost ''x'' ''New''"] show ?thesis
    by (intro conjI)
qed

section \<open>Properties of the history reader\<close>

lemma readers_return:
  "(\<exists>v. getRecentlyUsedImages c fs cwd = Inr v) \<and> (\<exists>v. getRecentTopics c fs cwd = Inr v)"
  by (simp add: getRecentlyUsedImages_def getRecentTopics_def split: sum.split)

text \<open>
  C9. When the index file does not exist, or exists as a file whose text does not decode,
  \<open>getRecentlyUsedImages\<close> and \<open>getRecentTopics\<close> return the empty list; neither raises.
\<close>

theorem history_best_effort:
  assumes "\<not> existsSync fs (historyPath cwd) \<or>
           (\<exists>s. fs (historyPath cwd) = Some (File s) \<and> parseIndex c s = None)"
  shows "getRecentlyUsedImages c fs cwd = Inr [] \<and> getRecentTopics c fs cwd = Inr []"
  using assms
  by (auto simp: getRecentlyUsedImages_def getRecentTopics_def readIndex_def readFileSync_def
      split: sum.split)

theorem history_best_effort_witness:
  "\<not> existsSync Map.empty (historyPath ''/repo'') \<and>
   getRecentlyUsedImages exampleCodec Map.empty ''/repo'' = Inr [] \<and>
   getRecentTopics exampleCodec Map.empty ''/repo'' = Inr [] \<and>
   [historyPath ''/repo'' \<mapsto> File ''{broken''] (historyPath ''/repo'') = Some (File ''{broken'') \<and>
   parseIndex exampleCodec ''{broken'' = None \<and>
   getRecentlyUsedImages exampleCodec [historyPath ''/repo'' \<mapsto> File ''{broken''] ''/repo'' = Inr [] \<and>
   getRecentTopics exampleCodec [historyPath ''/repo'' \<mapsto> File ''{broken''] ''/repo'' = Inr []"
proof -
  let ?fs = "[historyPath ''/repo'' \<mapsto> File ''{broken'']"
  have a: "\<not> existsSync Map.empty (historyPath ''/repo'')" by (simp add: existsSync_def)
  have b: "?fs (historyPath ''/repo'') = Some (File ''{broken'')" by simp
  have c: "parseIndex exampleCodec ''{broken'' = None" by (simp add: exampleCodec_def)
  from a have "\<not> existsSync Map.empty (historyPath ''/repo'') \<or>
      (\<exists>s. Map.empty (historyPath ''/repo'') = Some (File s) \<and> parseIndex exampleCodec s = None)"
    by blast
  from history_best_effort[OF this]
  have d: "getRecentlyUsedImages exampleCodec Map.empty ''/repo'' = Inr []"
    and e: "getRecentTopics exampleCodec Map.empty ''/repo'' = Inr []" by blast+
  from b c have "\<not> existsSync ?fs (historyPath ''/repo'') \<or>
      (\<exists>s. ?fs (historyPath ''/repo'') = Some (File s) \<and> parseIndex exampleCodec s = None)"
    by blast
  from history_best_effort[OF this]
  have f: "getRecentlyUsedImages exampleCodec ?fs ''/repo'' = Inr []"
    and g: "getRecentTopics exampleCodec ?fs ''/repo'' = Inr []" by blast+
  from a d e b c f g show ?thesis by (intro conjI)
qed

section \<open>Properties of a run\<close>

lemma selectTopic_Some:
  assumes "0 \<le> r" and "r < 1"
  shows "\<exists>t. selectTopic r p usedTopics = Some t"
proof (cases "p \<noteq> [] \<and> trim p \<noteq> []")
  case True
  then show ?thesis by (simp add: selectTopic_def)
next
  case False
  then have "selectTopic r p usedTopics = pick r (topicsToChoose usedTopics)"
    by (auto simp: selectTopic_def selectUniqueTopic_def)
  with pick_Some[OF assms topicsToChoose_nonempty[of usedTopics]] show ?thesis by auto
qed

lemma pool_categories:
  "t \<in> set TOPIC_POOL \<Longrightarrow> \<exists>images. map_of categoryImages (category t) = Some images"
proof -
  have "list_all (\<lambda>t. map_of categoryImages (category t) \<noteq> None) TOPIC_POOL"
    by code_simp
  then show "t \<in> set TOPIC_POOL \<Longrightarrow> \<exists>images. map_of categoryImages (category t) = Some images"
    by (auto simp: list_all_iff)
qed

lemma selectTopic_category:
  assumes "selectTopic r p usedTopics = Some sel"
  shows "\<exists>images. map_of categoryImages (category sel) = Some images"
proof (cases "p \<noteq> [] \<and> trim p \<noteq> []")
  case True
  show ?thesis
  proof (cases "find (topicMatches p) TOPIC_POOL")
    case None
    with True assms have "category sel = ''Guides''" by (auto simp: selectTopic_def)
    then show ?thesis by (simp add: categoryImages_Guides)
  next
    case (Some t)
    with True assms have "sel = t" by (auto simp: selectTopic_def)
    moreover from Some have "t \<in> set TOPIC_POOL" by (auto simp: find_Some_iff)
    ultimately show ?thesis by (simp add: pool_categories)
  qed
next
  case False
  with assms have "pick r (topicsToChoose usedTopics) = Some sel"
    by (auto simp: selectTopic_def selectUniqueTopic_def)
  then have "sel \<in> set (topicsToChoose usedTopics)" by (rule pick_mem)
  then have "sel \<in> set TOPIC_POOL" using topicsToChoose_subset by blast
  then show ?thesis by (rule pool_categories)
qed

lemma selectUniqueImage_Some:
  assumes "map_of categoryImages cat = Some images" and "0 \<le> r" and "r < 1"
  shows "\<exists>u. selectUniqueImage r cat usedImages = Some u"
proof -
  from assms(1) have a: "imagesFor cat = Some images" by (rule imagesFor_key)
  from categoryImages_length[OF assms(1)] have b: "images \<noteq> []" by auto
  from selectUniqueImage_from[OF a b assms(2,3)] show ?thesis by blast
qed

lemma selectKeywords_Some:
  assumes "validDraws i"
  shows "\<exists>ks. selectKeywords i = Some ks"
proof (cases "length (envKeywords i) > 0")
  case True
  then show ?thesis by (simp add: selectKeywords_def)
next
  case False
  have "seoKeywords_primary \<noteq> []" by (simp add: seoKeywords_primary_def)
  with assms obtain a where a: "pick (rPrimary i) seoKeywords_primary = Some a"
    using pick_Some[of "rPrimary i" seoKeywords_primary] by (auto simp: validDraws_def)
  have "seoKeywords_secondary \<noteq> []" by (simp add: seoKeywords_secondary_def)
  with assms obtain b where b: "pick (rSecondary i) seoKeywords_secondary = Some b"
    using pick_Some[of "rSecondary i" seoKeywords_secondary] by (auto simp: validDraws_def)
  have "seoKeywords_longtail \<noteq> []" by (simp add: seoKeywords_longtail_def)
  with assms obtain d where d: "pick (rLongtail i) seoKeywords_longtail = Some d"
    using pick_Some[of "rLongtail i" seoKeywords_longtail] by (auto simp: validDraws_def)
  from False a b d show ?thesis by (simp add: selectKeywords_def)
qed

lemma requestContent_not_ok:
  "fetched i = Some resp \<Longrightarrow> \<not> ok resp \<Longrightarrow>
     requestContent c i = Inl (ApiError (status resp) (body resp))"
  by (simp add: requestContent_def)

lemma requestContent_Inr_ok:
  "requestContent c i = Inr blog \<Longrightarrow> \<exists>resp. fetched i = Some resp \<and> ok resp"
  by (auto simp: requestContent_def split: option.splits if_splits)

lemma generateBlogPost_unchanged:
  assumes "\<And>blog. requestContent c i \<noteq> Inr blog"
  shows "snd (generateBlogPost c i fs) = fs"
proof -
  from assms obtain e where "requestContent c i = Inl e"
    by (cases "requestContent c i") auto
  then show ?thesis
    by (simp add: generateBlogPost_def split: sum.split option.split prod.split)
qed

lemma generateBlogPost_fails:
  assumes "requestContent c i = Inl e" and "validDraws i"
  shows "generateBlogPost c i fs = (Exited 1, fs)"
proof -
  from readers_return[of c fs "workDir i"] obtain usedImages usedTopics
    where u: "getRecentlyUsedImages c fs (workDir i) = Inr usedImages"
      and t: "getRecentTopics c fs (workDir i) = Inr usedTopics" by blast
  from assms(2) obtain sel where s: "selectTopic (rTopic i) (envTopic i) usedTopics = Some sel"
    using selectTopic_Some[of "rTopic i"] by (auto simp: validDraws_def)
  from selectTopic_category[OF s] obtain images
    where m: "map_of categoryImages (category sel) = Some images" by blast
  from assms(2) obtain img
    where g: "selectUniqueImage (rImage i) (category sel) usedImages = Some img"
    using selectUniqueImage_Some[OF m, of "rImage i"] by (auto simp: validDraws_def)
  from selectKeywords_Some[OF assms(2)] obtain ks where k: "selectKeywords i = Some ks"
    by blast
  show ?thesis by (simp add: generateBlogPost_def u t s g k assms(1))
qed

lemma example_date: "hd (splitOn CHR ''T'' ''2026-01-05T09:00:00.000Z'') = ''2026-01-05''"
  by code_simp

lemma example_slug: "generateSlug ''Defense Tips'' = ''defense-tips''"
  by code_simp

lemma example_selection:
  "selectTopic 0 ''Thesis Defense'' [] =
     Some \<lparr>topic = ''How to Prepare for Your Thesis Defense'', category = ''Guides'',
           featured = True\<rparr> \<and>
   selectUniqueImage 0 ''Guides'' [] = Some (hd guidesImages)"
proof -
  have "selectUniqueImage 0 ''Guides'' [] = Some (hd guidesImages)"
    by (simp add: selectUniqueImage_def imagesFor_key[OF categoryImages_Guides] pick_def
        randomIndex_def guidesImages_def)
  with selectTopic_thesis_defense show ?thesis by blast
qed

lemma example_request:
  "requestContent exampleCodec
       (exampleRun (Some \<lparr>ok = True, status = 200, body = ''Defense Tips''\<rparr>)) =
     Inr \<lparr>bdTitle = ''Defense Tips'', bdSlug = None, bdDescription = ''A description'',
          bdExcerpt = ''An excerpt'', bdAuthor = ''Thesis Generator Research Team'',
          bdTags = [''thesis''], bdKeywords = None, bdReadTime = ''5 min read'',
          bdContent = ''Body''\<rparr>"
  by (simp add: requestContent_def exampleRun_def exampleCodec_def)

lemma generateBlogPost_success_example:
  "fst (generateBlogPost exampleCodec
          (exampleRun (Some \<lparr>ok = True, status = 200, body = ''Defense Tips''\<rparr>)) Map.empty) =
     Returned ''/repo/generated-posts/2026-01-05-defense-tips.mdx'' \<and>
   snd (generateBlogPost exampleCodec
          (exampleRun (Some \<lparr>ok = True, status = 200, body = ''Defense Tips''\<rparr>)) Map.empty)
       ''/repo/generated-posts/index.json'' = Some (File ''defense-tips;'') \<and>
   snd (generateBlogPost exampleCodec
          (exampleRun (Some \<lparr>ok = True, status = 200, body = ''Defense Tips''\<rparr>)) Map.empty)
       ''/repo/generated-posts'' = Some Dir \<and>
   snd (generateBlogPost exampleCodec
          (exampleRun (Some \<lparr>ok = True, status = 200, body = ''Defense Tips''\<rparr>)) Map.empty)
       ''/repo/generated-posts/2026-01-05-defense-tips.mdx'' \<noteq> None"
proof -
  let ?i = "exampleRun (Some \<lparr>ok = True, status = 200, body = ''Defense Tips''\<rparr>)"
  let ?t = "\<lparr>topic = ''How to Prepare for Your Thesis Defense'', category = ''Guides'',
             featured = True\<rparr>"
  let ?blog = "\<lparr>bdTitle = ''Defense Tips'', bdSlug = None, bdDescription = ''A description'',
          bdExcerpt = ''An excerpt'', bdAuthor = ''Thesis Generator Research Team'',
          bdTags = [''thesis''], bdKeywords = None, bdReadTime = ''5 min read'',
          bdContent = ''Body''\<rparr>"
  have f: "workDir ?i = ''/repo''" "envTopic ?i = ''Thesis Defense''"
    "envKeywords ?i = [''thesis'']" "rTopic ?i = 0" "rImage ?i = 0"
    "nowDate ?i = ''2026-01-05T09:00:00.000Z''"
    by (simp_all add: exampleRun_def)
  have r: "getRecentlyUsedImages exampleCodec Map.empty ''/repo'' = Inr []"
    "getRecentTopics exampleCodec Map.empty ''/repo'' = Inr []"
    by (simp_all add: getRecentlyUsedImages_def getRecentTopics_def existsSync_def)
  have k: "selectKeywords ?i = Some [''thesis'']" by (simp add: selectKeywords_def f)
  have w: "\<exists>fs'. writeOutputs exampleCodec ?i ?t (hd guidesImages) [''thesis''] ?blog Map.empty =
      (Inr ''/repo/generated-posts/2026-01-05-defense-tips.mdx'', fs') \<and>
      fs' ''/repo/generated-posts/index.json'' = Some (File ''defense-tips;'') \<and>
      fs' ''/repo/generated-posts'' = Some Dir \<and>
      fs' ''/repo/generated-posts/2026-01-05-defense-tips.mdx'' \<noteq> None"
    by (simp add: writeOutputs_def Let_def f example_date example_slug pathJoin_def
        existsSync_def mkdirSync_def writeFileSync_def upsertPost_def exampleCodec_def)
  then obtain fs' where
    w1: "writeOutputs exampleCodec ?i ?t (hd guidesImages) [''thesis''] ?blog Map.empty =
      (Inr ''/repo/generated-posts/2026-01-05-defense-tips.mdx'', fs')"
    and w2: "fs' ''/repo/generated-posts/index.json'' = Some (File ''defense-tips;'')"
      "fs' ''/repo/generated-posts'' = Some Dir"
      "fs' ''/repo/generated-posts/2026-01-05-defense-tips.mdx'' \<noteq> None"
    by blast
  have "generateBlogPost exampleCodec ?i Map.empty =
      (Returned ''/repo/generated-posts/2026-01-05-defense-tips.mdx'', fs')"
    using example_selection
    by (simp add: generateBlogPost_def f r k example_request w1)
  with w2 show ?thesis by simp
qed

text \<open>
  C4. When the remote API answers with a status that is not a success, the run ends with
  exit code 1 and the file system is as it was before the run. A run that changes
  the file system at all has passed the \<^verbatim>\<open>response.ok\<close> check.
\<close>

theorem api_failure_no_write:
  assumes "fetched i = Some resp" and "\<not> ok resp" and "validDraws i"
  shows "generateBlogPost c i fs = (Exited 1, fs) \<and>
         (\<forall>i' fs'. snd (generateBlogPost c i' fs') \<noteq> fs' \<longrightarrow>
            (\<exists>resp'. fetched i' = Some resp' \<and> ok resp'))"
proof -
  have "generateBlogPost c i fs = (Exited 1, fs)"
    using requestContent_not_ok[OF assms(1,2)] assms(3) by (rule generateBlogPost_fails)
  moreover have "\<exists>resp'. fetched i' = Some resp' \<and> ok resp'"
    if "snd (generateBlogPost c i' fs') \<noteq> fs'" for i' fs'
  proof -
    from that generateBlogPost_unchanged[of c i' fs']
    obtain blog where "requestContent c i' = Inr blog" by blast
    then show ?thesis by (rule requestContent_Inr_ok)
  qed
  ultimately show ?thesis by blast
qed

theorem api_failure_no_write_witness:
  "fetched (exampleRun (Some \<lparr>ok = False, status = 500, body = ''Internal Server Error''\<rparr>)) =
     Some \<lparr>ok = False, status = 500, body = ''Internal Server Error''\<rparr> \<and>
   validDraws (exampleRun (Some \<lparr>ok = False, status = 500, body = ''Internal Server Error''\<rparr>)) \<and>
   generateBlogPost exampleCodec
       (exampleRun (Some \<lparr>ok = False, status = 500, body = ''Internal Server Error''\<rparr>))
       Map.empty = (Exited 1, Map.empty) \<and>
   snd (generateBlogPost exampleCodec
          (exampleRun (Some \<lparr>ok = True, status = 200, body = ''Defense Tips''\<rparr>)) Map.empty)
     \<noteq> Map.empty \<and>
   (\<exists>resp. fetched (exampleRun (Some \<lparr>ok = True, status = 200, body = ''Defense Tips''\<rparr>)) =
            Some resp \<and> ok resp)"
proof -
  let ?resp = "\<lparr>ok = False, status = 500, body = ''Internal Server Error''\<rparr>"
  let ?good = "exampleRun (Some \<lparr>ok = True, status = 200, body = ''Defense Tips''\<rparr>)"
  have a: "fetched (exampleRun (Some ?resp)) = Some ?resp" by (simp add: exampleRun_def)
  have b: "\<not> ok ?resp" by simp
  have c: "validDraws (exampleRun (Some ?resp))" by (simp add: validDraws_def exampleRun_def)
  note t = api_failure_no_write[OF a b c, of exampleCodec Map.empty]
  from t have d: "generateBlogPost exampleCodec (exampleRun (Some ?resp)) Map.empty =
      (Exited 1, Map.empty)"
    by blast
  have "snd (generateBlogPost exampleCodec ?good Map.empty) ''/repo/generated-posts'' \<noteq>
      Map.empty ''/repo/generated-posts''"
    using generateBlogPost_success_example by simp
  then have e: "snd (generateBlogPost exampleCodec ?good Map.empty) \<noteq> Map.empty"
    by (rule contrapos_nn) (erule arg_cong)
  with t have f: "\<exists>resp. fetched ?good = Some resp \<and> ok resp" by blast
  from a c d e f show ?thesis by (intro conjI)
qed

end
